theory Spec2Isabelle
  imports Main
begin

section \<open>JavaScript values used by the timer\<close>

text \<open>
  Every number the script handles is either an integer or \<open>NaN\<close>: timestamps come from
  \<open>Date.now()\<close> (integer milliseconds), durations and statistics from
  \<open>Number.parseInt\<close>, which yields an integer or \<open>NaN\<close>. Integers are modelled as
  \<open>int\<close>; this is exact for magnitudes up to \<open>2^53\<close>, where IEEE doubles hold every
  integer, and the sign of zero is not distinguished (\<open>-0 === 0\<close> in the script).
\<close>

datatype jsnum = Num int | NaN

fun js_add :: "jsnum \<Rightarrow> jsnum \<Rightarrow> jsnum" where
  "js_add (Num a) (Num b) = Num (a + b)"
| "js_add _ _ = NaN"

fun js_sub :: "jsnum \<Rightarrow> jsnum \<Rightarrow> jsnum" where
  "js_sub (Num a) (Num b) = Num (a - b)"
| "js_sub _ _ = NaN"


text \<open>\<open>Math.max\<close>: \<open>NaN\<close> as soon as one argument is \<open>NaN\<close>.\<close>

fun js_max :: "jsnum \<Rightarrow> jsnum \<Rightarrow> jsnum" where
  "js_max (Num a) (Num b) = Num (max a b)"
| "js_max _ _ = NaN"

text \<open>The comparison \<open><\<close>: false as soon as one side is \<open>NaN\<close>.\<close>

fun js_lt :: "jsnum \<Rightarrow> jsnum \<Rightarrow> bool" where
  "js_lt (Num a) (Num b) = (a < b)"
| "js_lt _ _ = False"

text \<open>
  \<open>startTime\<close> and \<open>pausedTime\<close> hold \<open>null\<close> or an integer. \<open>x || 0\<close> replaces a
  falsy \<open>x\<close> (\<open>null\<close>, and \<open>0\<close> itself) by \<open>0\<close>; in a subtraction \<open>null\<close> is coerced
  to \<open>0\<close>.
\<close>

definition orZero :: "int option \<Rightarrow> int" where
  "orZero x = (case x of None \<Rightarrow> 0 | Some v \<Rightarrow> (if v = 0 then 0 else v))"

definition toNumber :: "int option \<Rightarrow> int" where
  "toNumber x = (case x of None \<Rightarrow> 0 | Some v \<Rightarrow> v)"

subsection \<open>Conversion between numbers and strings\<close>

text \<open>
  Strings are sequences of code units below 256. \<open>digitChar\<close> and \<open>natToString\<close> give the
  decimal representation that \<open>String(n)\<close> produces for an integer.
\<close>

definition digitChar :: "nat \<Rightarrow> char" where
  "digitChar d = char_of (48 + d)"

fun natToString :: "nat \<Rightarrow> string" where
  "natToString n = (if n < 10 then [digitChar n] else natToString (n div 10) @ [digitChar (n mod 10)])"

definition intToString :: "int \<Rightarrow> string" where
  "intToString i = (if i < 0 then CHR ''-'' # natToString (nat (- i)) else natToString (nat i))"

fun numToString :: "jsnum \<Rightarrow> string" where
  "numToString NaN = ''NaN''"
| "numToString (Num i) = intToString i"

text \<open>A value handed to \<open>parseInt\<close> or \<open>setItem\<close>: a string or a number.\<close>

datatype jsval = JStr string | JNum jsnum

fun toString :: "jsval \<Rightarrow> string" where
  "toString (JStr s) = s"
| "toString (JNum n) = numToString n"









section \<open>The timer state and the page around it\<close>

record timerState =
  isRunning :: bool
  isPaused :: bool
  isBreak :: bool
  timeRemaining :: jsnum
  focusDuration :: jsnum
  breakDuration :: jsnum
  sessionsCompleted :: jsnum
  totalSeconds :: jsnum
  startTime :: "int option"
  pausedTime :: "int option"

text \<open>The object literal the script starts with.\<close>

definition initialTimerState :: timerState where
  "initialTimerState =
     \<lparr> isRunning = False, isPaused = False, isBreak = False,
       timeRemaining = Num (25 * 60), focusDuration = Num (25 * 60),
       breakDuration = Num (5 * 60), sessionsCompleted = Num 0, totalSeconds = Num 0,
       startTime = None, pausedTime = None \<rparr>"

text \<open>
  Besides \<open>timerState\<close> the functions act on the browser's scheduler and on
  \<open>localStorage\<close>. \<open>intervals\<close> counts the tick loops registered by \<open>setInterval\<close> and
  not yet cleared (their callbacks are the same closure over the one global state, so a
  count identifies them); \<open>timeouts\<close> lists, in registration order, the due times of the
  auto-start callbacks registered by \<open>setTimeout\<close>; \<open>storage\<close> is \<open>localStorage\<close>.
  Writes to the DOM (button states, the displayed time, the progress ring, the statistics
  text) and the notification calls have no effect on these components and are left out.
  \<open>Date.now()\<close> is the parameter \<open>now\<close>.
\<close>

record page =
  timer :: timerState
  intervals :: nat
  timeouts :: "int list"
  storage :: "string \<rightharpoonup> string"

definition initialPage :: page where
  "initialPage = \<lparr> timer = initialTimerState, intervals = 0, timeouts = [], storage = Map.empty \<rparr>"

section \<open>Timer logic\<close>

text \<open>\<open>startTimer\<close>: returns at once when running; else marks the timer running, sets
  \<open>startTime\<close> and registers the tick loop.\<close>

definition startTimer :: "int \<Rightarrow> page \<Rightarrow> page" where
  "startTimer now p =
     (if isRunning (timer p) then p
      else p\<lparr> timer := (timer p)\<lparr> isRunning := True, isPaused := False,
                  startTime := Some (now - orZero (pausedTime (timer p))) \<rparr>,
              intervals := Suc (intervals p) \<rparr>)"

text \<open>The duration the tick and the progress ring use for the current phase.\<close>

definition phaseDuration :: "timerState \<Rightarrow> jsnum" where
  "phaseDuration s = (if isBreak s then breakDuration s else focusDuration s)"

text \<open>The elapsed milliseconds the tick computes, \<open>Date.now() - timerState.startTime\<close>.\<close>

definition elapsedTime :: "int \<Rightarrow> timerState \<Rightarrow> int" where
  "elapsedTime now s = now - toNumber (startTime s)"

text \<open>The assignment to \<open>timeRemaining\<close> in the tick; \<open>div\<close> on \<open>int\<close> rounds down,
  as \<open>Math.floor\<close> does.\<close>

definition recompute :: "int \<Rightarrow> timerState \<Rightarrow> timerState" where
  "recompute now s =
     s\<lparr> timeRemaining :=
          js_max (Num 0) (js_sub (phaseDuration s) (Num (elapsedTime now s div 1000))) \<rparr>"

text \<open>\<open>completeTimer\<close>: statistics, phase flip, and the auto-start one second later
  (the callback is registered at the instant \<open>now\<close> of the tick that completed).\<close>

definition completeTimer :: "int \<Rightarrow> page \<Rightarrow> page" where
  "completeTimer now p =
     (let s = timer p;
          s' = (if \<not> isBreak s
                then s\<lparr> sessionsCompleted := js_add (sessionsCompleted s) (Num 1),
                        totalSeconds := js_add (totalSeconds s) (focusDuration s),
                        isBreak := True,
                        timeRemaining := breakDuration s,
                        pausedTime := None \<rparr>
                else s\<lparr> totalSeconds := js_add (totalSeconds s) (breakDuration s),
                        isBreak := False,
                        timeRemaining := focusDuration s,
                        pausedTime := None \<rparr>)
      in p\<lparr> timer := s', timeouts := timeouts p @ [now + 1000] \<rparr>)"

text \<open>One run of the callback given to \<open>setInterval\<close>. Without a registered loop there
  is nothing to run. A loop that finds the timer not running clears itself; one that
  reaches zero clears itself and calls \<open>completeTimer\<close>.\<close>

definition tick :: "int \<Rightarrow> page \<Rightarrow> page" where
  "tick now p =
     (if intervals p = 0 then p
      else if \<not> isRunning (timer p) then p\<lparr> intervals := intervals p - 1 \<rparr>
      else let s = recompute now (timer p) in
           if timeRemaining s = Num 0
           then completeTimer now (p\<lparr> timer := s, intervals := intervals p - 1 \<rparr>)
           else p\<lparr> timer := s \<rparr>)"

definition togglePause :: "int \<Rightarrow> page \<Rightarrow> page" where
  "togglePause now p =
     (if \<not> isRunning (timer p) then p
      else p\<lparr> timer := (timer p)\<lparr> isRunning := False, isPaused := True,
                  pausedTime := Some (now - toNumber (startTime (timer p))) \<rparr> \<rparr>)"

definition resetTimer :: "page \<Rightarrow> page" where
  "resetTimer p =
     p\<lparr> timer := (timer p)\<lparr> isRunning := False, isPaused := False,
             startTime := None, pausedTime := None,
             timeRemaining := focusDuration (timer p) \<rparr> \<rparr>"

text \<open>The callback given to \<open>setTimeout\<close> by \<open>completeTimer\<close>: the earliest registered
  one runs once its delay has passed, and calls \<open>startTimer\<close>.\<close>

definition fireTimeout :: "int \<Rightarrow> page \<Rightarrow> page" where
  "fireTimeout now p =
     (case timeouts p of
        [] \<Rightarrow> p
      | due # rest \<Rightarrow> if now < due then p else startTimer now (p\<lparr> timeouts := rest \<rparr>))"

section \<open>Settings and storage\<close>




definition saveStats :: "page \<Rightarrow> page" where
  "saveStats p =
     p\<lparr> storage := (storage p)
          (''pomodoroSessionsCompleted'' \<mapsto> toString (JNum (sessionsCompleted (timer p))),
           ''pomodoroTotalSeconds'' \<mapsto> toString (JNum (totalSeconds (timer p)))) \<rparr>"

section \<open>Runs of the page\<close>

text \<open>What can happen to a loaded page: the three buttons, a run of a tick loop, and a
  run of a pending auto-start.\<close>

datatype event = Start int | Pause int | Reset | Tick int | Timeout int

fun step :: "event \<Rightarrow> page \<Rightarrow> page" where
  "step (Start now) p = startTimer now p"
| "step (Pause now) p = togglePause now p"
| "step Reset p = resetTimer p"
| "step (Tick now) p = tick now p"
| "step (Timeout now) p = fireTimeout now p"

fun run :: "event list \<Rightarrow> page \<Rightarrow> page" where
  "run [] p = p"
| "run (e # es) p = run es (step e p)"

text \<open>A tick at \<open>now\<close> is a phase completion when its loop is registered, the timer is
  running and the recomputed remaining time is zero: the case in which the callback calls
  \<open>completeTimer\<close>.\<close>

definition completes :: "int \<Rightarrow> page \<Rightarrow> bool" where
  "completes now p =
     (intervals p \<noteq> 0 \<and> isRunning (timer p) \<and> timeRemaining (recompute now (timer p)) = Num 0)"

section \<open>Auxiliary notions for the proofs\<close>

text \<open>A statistic has not decreased from \<open>a\<close> to \<open>b\<close>: both are numbers and
  \<open>a \<le> b\<close>, or both are \<open>NaN\<close>.\<close>

definition statLe :: "jsnum \<Rightarrow> jsnum \<Rightarrow> bool" where
  "statLe a b = (case a of NaN \<Rightarrow> b = NaN | Num x \<Rightarrow> (case b of NaN \<Rightarrow> False | Num y \<Rightarrow> x \<le> y))"


declare natToString.simps [simp del]

section \<open>Basic facts\<close>

lemma orZero_toNumber: "orZero x = toNumber x"
  by (simp add: orZero_def toNumber_def split: option.splits)

lemma timeRemaining_recompute:
  "timeRemaining (recompute now s) =
     js_max (Num 0) (js_sub (phaseDuration s) (Num (elapsedTime now s div 1000)))"
  by (simp add: recompute_def)


lemma recompute_fields:
  "sessionsCompleted (recompute now s) = sessionsCompleted s"
  "totalSeconds (recompute now s) = totalSeconds s"
  "focusDuration (recompute now s) = focusDuration s"
  "breakDuration (recompute now s) = breakDuration s"
  "isBreak (recompute now s) = isBreak s"
  "isRunning (recompute now s) = isRunning s"
  by (simp_all add: recompute_def)



lemma elapsed_resume:
  "isRunning (timer p) \<Longrightarrow>
   elapsedTime t (timer (startTimer t2 (togglePause t1 p))) = elapsedTime (t - (t2 - t1)) (timer p)"
  by (simp add: startTimer_def togglePause_def elapsedTime_def orZero_toNumber toNumber_def)

lemma phase_resume:
  "isRunning (timer p) \<Longrightarrow>
   phaseDuration (timer (startTimer t2 (togglePause t1 p))) = phaseDuration (timer p)"
  by (simp add: startTimer_def togglePause_def phaseDuration_def)

subsection \<open>The first phase of a freshly loaded page\<close>

lemma started_page:
  "startTimer 0 initialPage =
     initialPage\<lparr> timer := initialTimerState\<lparr> isRunning := True, startTime := Some 0 \<rparr>,
                  intervals := 1 \<rparr>"
  by (simp add: startTimer_def initialPage_def initialTimerState_def orZero_def)

lemma first_focus_completed:
  "run [Start 0, Tick 1500000] initialPage =
     initialPage\<lparr> timer := initialTimerState\<lparr> isRunning := True, startTime := Some 0,
                      sessionsCompleted := Num 1, totalSeconds := Num 1500, isBreak := True,
                      timeRemaining := Num 300 \<rparr>,
                  timeouts := [1501000] \<rparr>"
  by (simp add: startTimer_def tick_def recompute_def completeTimer_def phaseDuration_def
      elapsedTime_def toNumber_def orZero_def initialPage_def initialTimerState_def Let_def)

subsection \<open>Statistics along a run\<close>

lemma statLe_refl: "statLe a a"
  by (simp add: statLe_def split: jsnum.splits)

lemma statLe_trans: "statLe a b \<Longrightarrow> statLe b c \<Longrightarrow> statLe a c"
  by (auto simp: statLe_def split: jsnum.splits)

lemma statLe_not_lt: "statLe a b \<Longrightarrow> \<not> js_lt b a"
  by (auto simp: statLe_def split: jsnum.splits)

lemma statLe_add: "0 \<le> d \<Longrightarrow> statLe a (js_add a (Num d))"
  by (cases a) (simp_all add: statLe_def)

lemma run_append: "run (xs @ ys) p = run ys (run xs p)"
  by (induction xs arbitrary: p) simp_all

lemma startTimer_stats:
  "sessionsCompleted (timer (startTimer now p)) = sessionsCompleted (timer p)
   \<and> totalSeconds (timer (startTimer now p)) = totalSeconds (timer p)
   \<and> focusDuration (timer (startTimer now p)) = focusDuration (timer p)
   \<and> breakDuration (timer (startTimer now p)) = breakDuration (timer p)"
  by (simp add: startTimer_def)

lemma togglePause_stats:
  "sessionsCompleted (timer (togglePause now p)) = sessionsCompleted (timer p)
   \<and> totalSeconds (timer (togglePause now p)) = totalSeconds (timer p)
   \<and> focusDuration (timer (togglePause now p)) = focusDuration (timer p)
   \<and> breakDuration (timer (togglePause now p)) = breakDuration (timer p)"
  by (simp add: togglePause_def)

lemma resetTimer_stats:
  "sessionsCompleted (timer (resetTimer p)) = sessionsCompleted (timer p)
   \<and> totalSeconds (timer (resetTimer p)) = totalSeconds (timer p)
   \<and> focusDuration (timer (resetTimer p)) = focusDuration (timer p)
   \<and> breakDuration (timer (resetTimer p)) = breakDuration (timer p)"
  by (simp add: resetTimer_def)

lemma fireTimeout_stats:
  "sessionsCompleted (timer (fireTimeout now p)) = sessionsCompleted (timer p)
   \<and> totalSeconds (timer (fireTimeout now p)) = totalSeconds (timer p)
   \<and> focusDuration (timer (fireTimeout now p)) = focusDuration (timer p)
   \<and> breakDuration (timer (fireTimeout now p)) = breakDuration (timer p)"
  by (simp add: fireTimeout_def startTimer_stats split: list.splits)

lemma tick_not_completes:
  "\<not> completes now p \<Longrightarrow>
   sessionsCompleted (timer (tick now p)) = sessionsCompleted (timer p)
   \<and> totalSeconds (timer (tick now p)) = totalSeconds (timer p)"
  by (auto simp: tick_def completes_def Let_def recompute_fields)

lemma tick_durations:
  "focusDuration (timer (tick now p)) = focusDuration (timer p)
   \<and> breakDuration (timer (tick now p)) = breakDuration (timer p)"
  by (simp add: tick_def completeTimer_def recompute_def Let_def)

lemma tick_statLe:
  assumes "focusDuration (timer p) = Num f" "0 < f" "breakDuration (timer p) = Num b" "0 < b"
  shows "statLe (sessionsCompleted (timer p)) (sessionsCompleted (timer (tick now p)))
     \<and> statLe (totalSeconds (timer p)) (totalSeconds (timer (tick now p)))"
  using assms
  by (simp add: tick_def completeTimer_def recompute_def Let_def statLe_refl statLe_add)

lemma step_only_completion:
  assumes "sessionsCompleted (timer (step e p)) \<noteq> sessionsCompleted (timer p)
         \<or> totalSeconds (timer (step e p)) \<noteq> totalSeconds (timer p)"
  shows "\<exists>now. e = Tick now \<and> completes now p"
proof (cases e)
  case (Tick now)
  then show ?thesis using assms tick_not_completes [of now p] by auto
qed (use assms in \<open>simp_all add: startTimer_stats togglePause_stats resetTimer_stats fireTimeout_stats\<close>)

lemma step_durations:
  "focusDuration (timer (step e p)) = focusDuration (timer p)
   \<and> breakDuration (timer (step e p)) = breakDuration (timer p)"
  by (cases e)
     (simp_all add: startTimer_stats togglePause_stats resetTimer_stats fireTimeout_stats
        tick_durations)

lemma step_statLe:
  assumes "focusDuration (timer p) = Num f" "0 < f" "breakDuration (timer p) = Num b" "0 < b"
  shows "statLe (sessionsCompleted (timer p)) (sessionsCompleted (timer (step e p)))
     \<and> statLe (totalSeconds (timer p)) (totalSeconds (timer (step e p)))"
proof (cases e)
  case (Tick now)
  then show ?thesis using tick_statLe [OF assms, of now] by simp
qed (simp_all add: startTimer_stats togglePause_stats resetTimer_stats fireTimeout_stats
       statLe_refl)

lemma run_statLe:
  assumes "focusDuration (timer p) = Num f" "0 < f" "breakDuration (timer p) = Num b" "0 < b"
  shows "statLe (sessionsCompleted (timer p)) (sessionsCompleted (timer (run evs p)))
     \<and> statLe (totalSeconds (timer p)) (totalSeconds (timer (run evs p)))"
  using assms
proof (induction evs arbitrary: p)
  case Nil
  show ?case by (simp add: statLe_refl)
next
  case (Cons e es)
  have d: "focusDuration (timer (step e p)) = Num f" "breakDuration (timer (step e p)) = Num b"
    using Cons.prems by (simp_all add: step_durations)
  have one: "statLe (sessionsCompleted (timer p)) (sessionsCompleted (timer (step e p)))"
            "statLe (totalSeconds (timer p)) (totalSeconds (timer (step e p)))"
    using step_statLe [OF Cons.prems, of e] by simp_all
  have rest: "statLe (sessionsCompleted (timer (step e p)))
                (sessionsCompleted (timer (run es (step e p))))"
             "statLe (totalSeconds (timer (step e p)))
                (totalSeconds (timer (run es (step e p))))"
    using Cons.IH [OF d(1) Cons.prems(2) d(2) Cons.prems(4)] by simp_all
  show ?case
    using one rest by (auto intro: statLe_trans)
qed

subsection \<open>Decimal strings and \<open>parseInt\<close>\<close>















section \<open>The tick\<close>



section \<open>Phase completion\<close>

text \<open>
  C2. When a phase completes: after a focus phase \<open>sessionsCompleted\<close> is increased by
  one, \<open>totalSeconds\<close> by \<open>focusDuration\<close>, \<open>isBreak\<close> becomes true and
  \<open>timeRemaining\<close> is \<open>breakDuration\<close>; after a break \<open>sessionsCompleted\<close> is
  unchanged, \<open>totalSeconds\<close> is increased by \<open>breakDuration\<close>, \<open>isBreak\<close> becomes
  false and \<open>timeRemaining\<close> is \<open>focusDuration\<close>; in both cases \<open>pausedTime\<close> is
  cleared.
\<close>

theorem completeTimer_switches_phase:
  "(\<not> isBreak (timer p) \<longrightarrow>
      sessionsCompleted (timer (completeTimer now p)) = js_add (sessionsCompleted (timer p)) (Num 1)
    \<and> totalSeconds (timer (completeTimer now p)) = js_add (totalSeconds (timer p)) (focusDuration (timer p))
    \<and> isBreak (timer (completeTimer now p))
    \<and> timeRemaining (timer (completeTimer now p)) = breakDuration (timer p))
  \<and> (isBreak (timer p) \<longrightarrow>
      sessionsCompleted (timer (completeTimer now p)) = sessionsCompleted (timer p)
    \<and> totalSeconds (timer (completeTimer now p)) = js_add (totalSeconds (timer p)) (breakDuration (timer p))
    \<and> \<not> isBreak (timer (completeTimer now p))
    \<and> timeRemaining (timer (completeTimer now p)) = focusDuration (timer p))
  \<and> pausedTime (timer (completeTimer now p)) = None
  \<and> (sessionsCompleted (timer p) = Num n \<and> \<not> isBreak (timer p) \<longrightarrow>
        sessionsCompleted (timer (completeTimer now p)) = Num (n + 1))"
  by (simp add: completeTimer_def Let_def)

text \<open>Completing the first focus phase, then the break that follows it.\<close>

theorem completeTimer_switches_phase_witness:
  "\<not> isBreak (timer initialPage)
   \<and> sessionsCompleted (timer (completeTimer 0 initialPage)) = Num 1
   \<and> totalSeconds (timer (completeTimer 0 initialPage)) = Num 1500
   \<and> isBreak (timer (completeTimer 0 initialPage))
   \<and> timeRemaining (timer (completeTimer 0 initialPage)) = Num 300
   \<and> sessionsCompleted (timer (completeTimer 9 (completeTimer 0 initialPage))) = Num 1
   \<and> totalSeconds (timer (completeTimer 9 (completeTimer 0 initialPage))) = Num 1800
   \<and> \<not> isBreak (timer (completeTimer 9 (completeTimer 0 initialPage)))
   \<and> timeRemaining (timer (completeTimer 9 (completeTimer 0 initialPage))) = Num 1500
   \<and> pausedTime (timer (completeTimer 9 (completeTimer 0 initialPage))) = None"
proof -
  have a: "\<not> isBreak (timer initialPage)"
    by (simp add: initialPage_def initialTimerState_def)
  have v: "sessionsCompleted (timer initialPage) = Num 0" "totalSeconds (timer initialPage) = Num 0"
    "focusDuration (timer initialPage) = Num 1500" "breakDuration (timer initialPage) = Num 300"
    by (simp_all add: initialPage_def initialTimerState_def)
  have d: "focusDuration (timer (completeTimer 0 initialPage)) = Num 1500"
    "breakDuration (timer (completeTimer 0 initialPage)) = Num 300"
    using a v by (simp_all add: completeTimer_def Let_def)
  show ?thesis
    using a v d completeTimer_switches_phase [of initialPage 0 0]
      completeTimer_switches_phase [of "completeTimer 0 initialPage" 9 1]
    by simp
qed

section \<open>Reset\<close>

text \<open>
  C3. The claim asks reset to restore \<open>timeRemaining\<close> to the duration of the current
  phase. \<open>resetTimer\<close> assigns \<open>focusDuration\<close> without looking at \<open>isBreak\<close> and
  leaves \<open>isBreak\<close> as it is: on the page reached by completing the first focus phase
  (now in the break, durations 1500 and 300) reset leaves the timer stopped with both
  times cleared, still in the break, and with 1500 seconds remaining, while the duration
  the tick and the progress ring use for that phase is 300.
\<close>

theorem resetTimer_in_break:
  "isBreak (timer (resetTimer (run [Start 0, Tick 1500000] initialPage)))
   \<and> \<not> isRunning (timer (resetTimer (run [Start 0, Tick 1500000] initialPage)))
   \<and> \<not> isPaused (timer (resetTimer (run [Start 0, Tick 1500000] initialPage)))
   \<and> startTime (timer (resetTimer (run [Start 0, Tick 1500000] initialPage))) = None
   \<and> pausedTime (timer (resetTimer (run [Start 0, Tick 1500000] initialPage))) = None
   \<and> breakDuration (timer (resetTimer (run [Start 0, Tick 1500000] initialPage))) = Num 300
   \<and> phaseDuration (timer (resetTimer (run [Start 0, Tick 1500000] initialPage))) = Num 300
   \<and> timeRemaining (timer (resetTimer (run [Start 0, Tick 1500000] initialPage))) = Num 1500"
  unfolding first_focus_completed
  by (simp add: resetTimer_def phaseDuration_def initialPage_def initialTimerState_def)

section \<open>Pause and resume\<close>

text \<open>
  C5. Pausing a running timer at \<open>t1\<close> records \<open>pausedTime = t1 - startTime\<close>; resuming
  at \<open>t2\<close> sets \<open>startTime = t2 - pausedTime\<close>. Hence at every later instant \<open>t\<close> the
  elapsed time is what it would have been at \<open>t - (t2 - t1)\<close> without the pause: the pause
  delay \<open>t2 - t1\<close> is not counted, the remaining time computed by a tick is the same, and
  the tick completes the phase in exactly the same cases.
\<close>

theorem pause_resume_no_drift:
  assumes "isRunning (timer p)"
  shows "pausedTime (timer (togglePause t1 p)) = Some (t1 - toNumber (startTime (timer p)))
    \<and> startTime (timer (startTimer t2 (togglePause t1 p)))
        = Some (t2 - (t1 - toNumber (startTime (timer p))))
    \<and> isRunning (timer (startTimer t2 (togglePause t1 p)))
    \<and> elapsedTime t (timer (startTimer t2 (togglePause t1 p)))
        = elapsedTime (t - (t2 - t1)) (timer p)
    \<and> timeRemaining (recompute t (timer (startTimer t2 (togglePause t1 p))))
        = timeRemaining (recompute (t - (t2 - t1)) (timer p))
    \<and> completes t (startTimer t2 (togglePause t1 p))
        = (timeRemaining (recompute (t - (t2 - t1)) (timer p)) = Num 0)"
proof -
  have a: "pausedTime (timer (togglePause t1 p)) = Some (t1 - toNumber (startTime (timer p)))"
    using assms by (simp add: togglePause_def)
  have b: "startTime (timer (startTimer t2 (togglePause t1 p)))
             = Some (t2 - (t1 - toNumber (startTime (timer p))))"
    using assms by (simp add: startTimer_def togglePause_def orZero_toNumber toNumber_def)
  have c: "isRunning (timer (startTimer t2 (togglePause t1 p)))"
    by (simp add: startTimer_def)
  have i: "intervals (startTimer t2 (togglePause t1 p)) \<noteq> 0"
    using assms by (simp add: startTimer_def togglePause_def)
  have r: "timeRemaining (recompute t (timer (startTimer t2 (togglePause t1 p))))
        = timeRemaining (recompute (t - (t2 - t1)) (timer p))"
    using elapsed_resume [OF assms] phase_resume [OF assms]
    by (simp add: timeRemaining_recompute)
  have k: "completes t (startTimer t2 (togglePause t1 p))
        = (timeRemaining (recompute (t - (t2 - t1)) (timer p)) = Num 0)"
    using c i r by (simp add: completes_def)
  show ?thesis
    using a b c elapsed_resume [OF assms] r k by blast
qed

text \<open>Started at 0, paused at 5000 and resumed at 9000: at 1503999 the fresh page has
  run for 1499999 active milliseconds and has one second left.\<close>

theorem pause_resume_no_drift_witness:
  "isRunning (timer (startTimer 0 initialPage))
   \<and> pausedTime (timer (togglePause 5000 (startTimer 0 initialPage))) = Some 5000
   \<and> startTime (timer (startTimer 9000 (togglePause 5000 (startTimer 0 initialPage)))) = Some 4000
   \<and> elapsedTime 1503999 (timer (startTimer 9000 (togglePause 5000 (startTimer 0 initialPage))))
       = elapsedTime 1499999 (timer (startTimer 0 initialPage))
   \<and> timeRemaining (recompute 1503999
         (timer (startTimer 9000 (togglePause 5000 (startTimer 0 initialPage)))))
       = timeRemaining (recompute 1499999 (timer (startTimer 0 initialPage)))"
proof -
  have r: "isRunning (timer (startTimer 0 initialPage))"
    by (simp add: started_page)
  have s: "toNumber (startTime (timer (startTimer 0 initialPage))) = 0"
    by (simp add: started_page toNumber_def)
  show ?thesis
    using r s pause_resume_no_drift [OF r, of 5000 9000 1503999] by simp
qed

section \<open>Start\<close>

text \<open>
  C6. Start is idempotent: on a page whose timer is already running \<open>startTimer\<close> changes
  nothing (timer state, tick loops, pending auto-starts and storage alike), and starting
  twice in a row from any page is the same as starting once.
\<close>

theorem startTimer_idempotent:
  "(isRunning (timer p) \<longrightarrow> startTimer now p = p)
   \<and> startTimer now' (startTimer now p) = startTimer now p"
  by (simp add: startTimer_def)

theorem startTimer_idempotent_witness:
  "isRunning (timer (startTimer 0 initialPage))
   \<and> startTimer 3 (startTimer 0 initialPage) = startTimer 0 initialPage
   \<and> startTimer 7 (startTimer 3 (startTimer 0 initialPage)) = startTimer 3 (startTimer 0 initialPage)"
proof -
  have r: "isRunning (timer (startTimer 0 initialPage))"
    by (simp add: started_page)
  show ?thesis
    using r startTimer_idempotent [of "startTimer 0 initialPage" 3 7] by blast
qed

text \<open>
  C8. The claim says that every start clears \<open>pausedTime\<close>. \<open>startTimer\<close> never assigns
  \<open>pausedTime\<close>: after start, pause at 5000 and resume at 9000 it still holds 5000.
\<close>

theorem resume_keeps_pausedTime:
  "pausedTime (timer (run [Start 0, Pause 5000, Start 9000] initialPage)) \<noteq> None"
  by (simp add: startTimer_def togglePause_def toNumber_def orZero_def initialPage_def
      initialTimerState_def)

text \<open>
  C8, as the code has it. A start on a timer that is not running (fresh from idle or
  resuming from paused) marks it running and not paused, sets
  \<open>startTime = now - (pausedTime or 0)\<close> and leaves \<open>pausedTime\<close> as it was: absent if
  it was absent, and still the pause offset after a resume.
\<close>

theorem startTimer_sets_startTime:
  assumes "\<not> isRunning (timer p)"
  shows "startTime (timer (startTimer now p))
           = Some (now - (case pausedTime (timer p) of None \<Rightarrow> 0 | Some v \<Rightarrow> v))
       \<and> pausedTime (timer (startTimer now p)) = pausedTime (timer p)
       \<and> isRunning (timer (startTimer now p))
       \<and> \<not> isPaused (timer (startTimer now p))"
  using assms by (simp add: startTimer_def orZero_toNumber toNumber_def)

theorem startTimer_sets_startTime_witness:
  "\<not> isRunning (timer (togglePause 5000 (startTimer 0 initialPage)))
   \<and> startTime (timer (startTimer 9000 (togglePause 5000 (startTimer 0 initialPage)))) = Some 4000
   \<and> pausedTime (timer (startTimer 9000 (togglePause 5000 (startTimer 0 initialPage)))) = Some 5000
   \<and> \<not> isRunning (timer initialPage)
   \<and> startTime (timer (startTimer 9000 initialPage)) = Some 9000
   \<and> pausedTime (timer (startTimer 9000 initialPage)) = None"
proof -
  have a: "\<not> isRunning (timer (togglePause 5000 (startTimer 0 initialPage)))"
    by (simp add: started_page togglePause_def)
  have b: "pausedTime (timer (togglePause 5000 (startTimer 0 initialPage))) = Some 5000"
    by (simp add: started_page togglePause_def toNumber_def)
  have c: "\<not> isRunning (timer initialPage)" "pausedTime (timer initialPage) = None"
    by (simp_all add: initialPage_def initialTimerState_def)
  show ?thesis
    using a b c startTimer_sets_startTime [OF a, of 9000] startTimer_sets_startTime [OF c(1), of 9000]
    by simp
qed

section \<open>Reset and the pending auto-start\<close>

text \<open>
  C7. The claim says that reset cancels the auto-start registered at phase completion.
  \<open>resetTimer\<close> does not touch the scheduler: the first focus phase completes at
  1500000, which registers the auto-start for 1501000; a reset in between leaves the timer
  idle with that callback still pending, and when it fires the timer is running again.
\<close>

theorem reset_keeps_autostart:
  "\<not> isRunning (timer (run [Start 0, Tick 1500000, Reset] initialPage))
   \<and> timeouts (run [Start 0, Tick 1500000, Reset] initialPage) = [1501000]
   \<and> isRunning (timer (run [Start 0, Tick 1500000, Reset, Timeout 1501000] initialPage))"
proof -
  have a: "run [Start 0, Tick 1500000, Reset] initialPage
             = resetTimer (run [Start 0, Tick 1500000] initialPage)"
    by simp
  have b: "run [Start 0, Tick 1500000, Reset, Timeout 1501000] initialPage
             = fireTimeout 1501000 (resetTimer (run [Start 0, Tick 1500000] initialPage))"
    by simp
  show ?thesis
    unfolding a b first_focus_completed
    by (simp add: resetTimer_def fireTimeout_def startTimer_def initialPage_def)
qed

text \<open>
  C7, as the code has it. After reset the timer is neither running nor paused, and a
  tick loop that is still scheduled leaves the timer state as it is (it finds the timer
  not running and clears itself). Reset leaves the pending auto-starts scheduled: when
  the earliest one fires after the reset it runs \<open>startTimer\<close>, and the timer is running
  again, with \<open>startTime\<close> the instant of firing.
\<close>

theorem reset_then_scheduled:
  "\<not> isRunning (timer (resetTimer p))
   \<and> \<not> isPaused (timer (resetTimer p))
   \<and> timer (tick now (resetTimer p)) = timer (resetTimer p)
   \<and> timeouts (resetTimer p) = timeouts p
   \<and> (timeouts p = due # rest \<and> due \<le> now' \<longrightarrow>
        isRunning (timer (fireTimeout now' (resetTimer p)))
        \<and> startTime (timer (fireTimeout now' (resetTimer p))) = Some now'
        \<and> timeouts (fireTimeout now' (resetTimer p)) = rest)"
  by (simp add: resetTimer_def tick_def fireTimeout_def startTimer_def orZero_def)

theorem reset_then_scheduled_witness:
  "timeouts (run [Start 0, Tick 1500000] initialPage) = [1501000]
   \<and> \<not> isRunning (timer (resetTimer (run [Start 0, Tick 1500000] initialPage)))
   \<and> isRunning (timer (fireTimeout 1501000 (resetTimer (run [Start 0, Tick 1500000] initialPage))))
   \<and> startTime (timer (fireTimeout 1501000 (resetTimer (run [Start 0, Tick 1500000] initialPage))))
       = Some 1501000"
proof -
  have t: "timeouts (run [Start 0, Tick 1500000] initialPage) = [1501000]"
    unfolding first_focus_completed by (simp add: initialPage_def)
  show ?thesis
    using t reset_then_scheduled [of "run [Start 0, Tick 1500000] initialPage" 0 1501000 "[]" 1501000]
    by blast
qed

section \<open>Statistics\<close>

text \<open>
  C10. With positive focus and break durations, along every sequence of start, pause,
  reset, ticks and auto-starts \<open>sessionsCompleted\<close> and \<open>totalSeconds\<close> never decrease
  (numbers stay numbers and do not get smaller); a step of the sequence that changes one
  of them is a tick that completes a phase; and reset leaves both unchanged.
\<close>

theorem stats_only_grow:
  assumes "focusDuration (timer p) = Num f" and "0 < f"
      and "breakDuration (timer p) = Num b" and "0 < b"
  shows "\<not> js_lt (sessionsCompleted (timer (run evs p))) (sessionsCompleted (timer p))
       \<and> \<not> js_lt (totalSeconds (timer (run evs p))) (totalSeconds (timer p))
       \<and> (sessionsCompleted (timer p) = Num n \<longrightarrow>
            (\<exists>n'. sessionsCompleted (timer (run evs p)) = Num n' \<and> n \<le> n'))
       \<and> (totalSeconds (timer p) = Num t \<longrightarrow>
            (\<exists>t'. totalSeconds (timer (run evs p)) = Num t' \<and> t \<le> t'))
       \<and> (evs = pre @ e # post \<and>
            (sessionsCompleted (timer (step e (run pre p))) \<noteq> sessionsCompleted (timer (run pre p))
             \<or> totalSeconds (timer (step e (run pre p))) \<noteq> totalSeconds (timer (run pre p)))
            \<longrightarrow> (\<exists>now. e = Tick now \<and> completes now (run pre p)))
       \<and> (evs = pre @ Reset # post \<longrightarrow>
            sessionsCompleted (timer (run (pre @ [Reset]) p)) = sessionsCompleted (timer (run pre p))
            \<and> totalSeconds (timer (run (pre @ [Reset]) p)) = totalSeconds (timer (run pre p)))"
proof -
  have le: "statLe (sessionsCompleted (timer p)) (sessionsCompleted (timer (run evs p)))"
           "statLe (totalSeconds (timer p)) (totalSeconds (timer (run evs p)))"
    using run_statLe [OF assms, of evs] by simp_all
  have a: "\<not> js_lt (sessionsCompleted (timer (run evs p))) (sessionsCompleted (timer p))"
    using le(1) by (rule statLe_not_lt)
  have b: "\<not> js_lt (totalSeconds (timer (run evs p))) (totalSeconds (timer p))"
    using le(2) by (rule statLe_not_lt)
  have c: "sessionsCompleted (timer p) = Num n \<longrightarrow>
            (\<exists>n'. sessionsCompleted (timer (run evs p)) = Num n' \<and> n \<le> n')"
    using le(1) by (auto simp: statLe_def split: jsnum.splits)
  have d: "totalSeconds (timer p) = Num t \<longrightarrow>
            (\<exists>t'. totalSeconds (timer (run evs p)) = Num t' \<and> t \<le> t')"
    using le(2) by (auto simp: statLe_def split: jsnum.splits)
  have e: "(sessionsCompleted (timer (step e (run pre p))) \<noteq> sessionsCompleted (timer (run pre p))
             \<or> totalSeconds (timer (step e (run pre p))) \<noteq> totalSeconds (timer (run pre p)))
            \<longrightarrow> (\<exists>now. e = Tick now \<and> completes now (run pre p))"
    using step_only_completion [of e "run pre p"] by blast
  have f: "sessionsCompleted (timer (run (pre @ [Reset]) p)) = sessionsCompleted (timer (run pre p))
            \<and> totalSeconds (timer (run (pre @ [Reset]) p)) = totalSeconds (timer (run pre p))"
    by (simp add: run_append resetTimer_stats)
  show ?thesis
    using a b c d e f by blast
qed

text \<open>The first focus phase, completed by the tick at 1500000 and followed by a reset:
  the session count goes from 0 to 1 at that tick and stays there.\<close>

theorem stats_only_grow_witness:
  "focusDuration (timer initialPage) = Num 1500 \<and> breakDuration (timer initialPage) = Num 300
   \<and> \<not> js_lt (sessionsCompleted (timer (run [Start 0, Tick 1500000, Reset] initialPage)))
            (sessionsCompleted (timer initialPage))
   \<and> \<not> js_lt (totalSeconds (timer (run [Start 0, Tick 1500000, Reset] initialPage)))
            (totalSeconds (timer initialPage))
   \<and> sessionsCompleted (timer (step (Tick 1500000) (run [Start 0] initialPage)))
        \<noteq> sessionsCompleted (timer (run [Start 0] initialPage))
   \<and> completes 1500000 (run [Start 0] initialPage)
   \<and> sessionsCompleted (timer (run ([Start 0, Tick 1500000] @ [Reset]) initialPage))
        = sessionsCompleted (timer (run [Start 0, Tick 1500000] initialPage))"
proof -
  have fd: "focusDuration (timer initialPage) = Num 1500"
    by (simp add: initialPage_def initialTimerState_def)
  have bd: "breakDuration (timer initialPage) = Num 300"
    by (simp add: initialPage_def initialTimerState_def)
  have pos: "(0::int) < 1500" "(0::int) < 300"
    by simp_all
  have one: "sessionsCompleted (timer (run [Start 0] initialPage)) = Num 0"
    by (simp add: startTimer_def initialPage_def initialTimerState_def)
  have two: "sessionsCompleted (timer (step (Tick 1500000) (run [Start 0] initialPage))) = Num 1"
  proof -
    have "step (Tick 1500000) (run [Start 0] initialPage) = run [Start 0, Tick 1500000] initialPage"
      by simp
    then show ?thesis
      unfolding first_focus_completed by (simp add: initialPage_def)
  qed
  have ch: "sessionsCompleted (timer (step (Tick 1500000) (run [Start 0] initialPage)))
        \<noteq> sessionsCompleted (timer (run [Start 0] initialPage))"
    using one two by simp
  have l1: "[Start 0, Tick 1500000, Reset] = [Start 0] @ Tick 1500000 # [Reset]"
    by simp
  have l2: "[Start 0, Tick 1500000, Reset] = [Start 0, Tick 1500000] @ Reset # []"
    by simp
  have t1: "\<exists>now. Tick 1500000 = Tick now \<and> completes now (run [Start 0] initialPage)"
    using stats_only_grow [OF fd pos(1) bd pos(2),
        where evs = "[Start 0, Tick 1500000, Reset]" and pre = "[Start 0]"
          and e = "Tick 1500000" and post = "[Reset]"] l1 ch
    by blast
  have c: "completes 1500000 (run [Start 0] initialPage)"
    using t1 by simp
  have t2: "\<not> js_lt (sessionsCompleted (timer (run [Start 0, Tick 1500000, Reset] initialPage)))
            (sessionsCompleted (timer initialPage))
     \<and> \<not> js_lt (totalSeconds (timer (run [Start 0, Tick 1500000, Reset] initialPage)))
            (totalSeconds (timer initialPage))
     \<and> sessionsCompleted (timer (run ([Start 0, Tick 1500000] @ [Reset]) initialPage))
        = sessionsCompleted (timer (run [Start 0, Tick 1500000] initialPage))"
    using stats_only_grow [OF fd pos(1) bd pos(2),
        where evs = "[Start 0, Tick 1500000, Reset]" and pre = "[Start 0, Tick 1500000]"
          and post = "[]"] l2
    by blast
  show ?thesis
    using fd bd ch c t2 by blast
qed

section \<open>Settings\<close>




section \<open>Loading\<close>




end
